theory Spec2Isabelle
  imports Main "HOL-Library.Word"
begin

section \<open>The media format reader: data model\<close>

text \<open>
  The development embeds \<^verbatim>\<open>FormatReader.cpp\<close> and \<^verbatim>\<open>FormatReader.h\<close>
  (namespace WebKit). Every member function runs its body while holding
  \<^verbatim>\<open>m_parseTracksLock\<close> (or, for the thread hops, before touching any
  member), so each function is one atomic step on the reader's fields; a step takes the
  thread it runs on, since the code asserts on \<^verbatim>\<open>isMainThread()\<close>.
  A failed \<^verbatim>\<open>ASSERT\<close> is the error value of a step.
\<close>

datatype error = AssertionFailure

datatype Thread = MainThread | OtherThread nat

fun isMainThread :: "Thread \<Rightarrow> bool" where
  "isMainThread MainThread = True"
| "isMainThread (OtherThread n) = False"

text \<open>
  \<^verbatim>\<open>OSStatus\<close> is a signed 32-bit integer. The four codes the reader uses are
  declared in the platform headers (outside the two source files); the reader only stores,
  compares and returns them.
\<close>

type_synonym OSStatus = "32 word"

definition noErr :: OSStatus where
  "noErr = 0"

definition kMTPluginFormatReaderError_AllocationFailure :: OSStatus where
  "kMTPluginFormatReaderError_AllocationFailure = - 16501"

definition kMTPluginFormatReaderError_ParsingFailure :: OSStatus where
  "kMTPluginFormatReaderError_ParsingFailure = - 16503"

definition kCMBaseObjectError_ValueNotAvailable :: OSStatus where
  "kCMBaseObjectError_ValueNotAvailable = - 12783"

text \<open>Modelled from the spec: \<^verbatim>\<open>MediaTime\<close> is declared outside the source files;
  the spec calls the duration "a possibly-invalid time value". The reader uses
  \<^verbatim>\<open>MediaTime::invalidTime()\<close> and \<^verbatim>\<open>isInvalid()\<close> only.
\<close>

datatype MediaTime = invalidTime | validTime int

fun isInvalid :: "MediaTime \<Rightarrow> bool" where
  "isInvalid invalidTime = True"
| "isInvalid (validTime v) = False"

text \<open>Opaque handles: a byte source, a media sample, and a track descriptor of the
  initialization segment, represented by the track id the collaborator assigned.\<close>

type_synonym ByteSource = nat
type_synonym MediaSample = nat
type_synonym TrackPrivate = "64 word"

datatype TrackKind = Video | Audio | Text

text \<open>
  \<^verbatim>\<open>SourceBufferPrivateClient::InitializationSegment\<close>: the duration and the
  three ordered descriptor lists (each entry's \<^verbatim>\<open>.track\<close>).
\<close>

record InitializationSegment =
  duration :: MediaTime
  videoTracks :: "TrackPrivate list"
  audioTracks :: "TrackPrivate list"
  textTracks :: "TrackPrivate list"

text \<open>
  The error callback passes \<^verbatim>\<open>{ }\<close>, a value-initialised segment: no tracks,
  and the default-constructed \<^verbatim>\<open>MediaTime\<close>, whose constructor is outside the
  source files and is therefore a parameter here.
\<close>

definition emptySegment :: "MediaTime \<Rightarrow> InitializationSegment" where
  "emptySegment d = \<lparr>duration = d, videoTracks = [], audioTracks = [], textTracks = []\<rparr>"

subsection \<open>Track channels\<close>

text \<open>Modelled from the spec: \<^verbatim>\<open>TrackReader\<close> (the spec's TrackChannel) is declared
  in \<^verbatim>\<open>TrackReader.h\<close>, which is not among the source files. The spec gives it a
  track id, a kind, an \<open>enabled\<close> flag that defaults to false, an append-only sample
  sequence (each sample with the byte source it came from) and a finished marking.
\<close>

record TrackReader =
  trackID :: "64 word"
  mediaType :: TrackKind
  enabled :: bool
  samples :: "(MediaSample \<times> ByteSource option) list"
  finished :: bool

text \<open>Modelled from the spec: the allocator handed to \<^verbatim>\<open>TrackReader::create\<close> is
  outside the source files. The spec says creation "returns nothing on internal allocation
  failure"; the model's allocator tells for which track the allocation succeeds.
\<close>

type_synonym Allocator = "TrackPrivate \<Rightarrow> bool"

text \<open>Modelled from the spec: \<^verbatim>\<open>TrackReader::create\<close> builds a disabled, empty
  channel from a descriptor, or nothing when the allocation fails. The kind is the static
  type of the descriptor (video, audio or in-band text track).\<close>

definition TrackReader_create :: "Allocator \<Rightarrow> TrackKind \<Rightarrow> TrackPrivate \<Rightarrow> TrackReader option" where
  "TrackReader_create alloc k t =
     (if alloc t
      then Some \<lparr>trackID = t, mediaType = k, enabled = False, samples = [], finished = False\<rparr>
      else None)"

text \<open>Modelled from the spec: \<^verbatim>\<open>setEnabled\<close> is a pure state toggle.\<close>

definition setEnabled :: "bool \<Rightarrow> TrackReader \<Rightarrow> TrackReader" where
  "setEnabled b r = r\<lparr>enabled := b\<rparr>"

text \<open>Modelled from the spec: \<^verbatim>\<open>addSample\<close> appends to the channel's ordered
  sample sequence.\<close>

definition addSample :: "MediaSample \<Rightarrow> ByteSource option \<Rightarrow> TrackReader \<Rightarrow> TrackReader" where
  "addSample sample byteSource r = r\<lparr>samples := samples r @ [(sample, byteSource)]\<rparr>"

text \<open>Modelled from the spec: \<^verbatim>\<open>TrackReader::finishParsing\<close> marks the channel as
  receiving no more samples.\<close>

definition TrackReader_finishParsing :: "TrackReader \<Rightarrow> TrackReader" where
  "TrackReader_finishParsing r = r\<lparr>finished := True\<rparr>"

subsection \<open>The collaborator parser\<close>

text \<open>Modelled from the spec: \<^verbatim>\<open>SourceBufferParser\<close> is outside the source files. The
  reader registers three callbacks with it, sets its minimum audio sample duration, and at
  the end releases the callbacks and resets its parsing state. The model records which
  callbacks are registered and whether the parser holds parsing state.
\<close>

record SourceBufferParser =
  minimumAudioSampleDuration :: nat
  didParseInitializationDataCallback :: bool
  didEncounterErrorDuringParsingCallback :: bool
  didProvideMediaDataCallback :: bool
  hasParserState :: bool

text \<open>Modelled from the spec: \<^verbatim>\<open>resetParserState\<close> discards the parser's
  internal parsing state.\<close>

definition resetParserState :: "SourceBufferParser \<Rightarrow> SourceBufferParser" where
  "resetParserState p = p\<lparr>hasParserState := False\<rparr>"

subsection \<open>The reader\<close>

text \<open>The fields of \<^verbatim>\<open>class FormatReader\<close>; \<open>allocator\<close> is the one its base
  class \<^verbatim>\<open>CoreMediaWrapped\<close> keeps. The lock and the condition have no state of
  their own in the model: the lock makes each step atomic, the condition is the
  \<open>Waiting\<close> result of a query.\<close>

record FormatReader =
  allocator :: Allocator
  m_byteSource :: "ByteSource option"
  m_duration :: MediaTime
  m_parseTracksStatus :: "OSStatus option"
  m_trackReaders :: "TrackReader list"

text \<open>The constructor (lines 65-69): the duration starts invalid, the other members are
  default-initialised.\<close>

definition FormatReader_new :: "Allocator \<Rightarrow> FormatReader" where
  "FormatReader_new alloc =
     \<lparr>allocator = alloc, m_byteSource = None, m_duration = invalidTime,
      m_parseTracksStatus = None, m_trackReaders = []\<rparr>"

section \<open>Operations\<close>

subsection \<open>Starting a parse\<close>

text \<open>\<^verbatim>\<open>callOnMainThread\<close> enqueues a closure for the main thread; the model
  returns the closure, and \<open>performMainThreadTask\<close> below is the main thread running it.\<close>

datatype MainThreadTask = ParseByteSourceTask "ByteSource option"

text \<open>The closure given to the reader queue: the byte source and the parser it will
  feed, before scheduling \<^verbatim>\<open>finishParsing\<close> on the main thread.\<close>

datatype ReaderQueueTask = AppendDataTask "ByteSource option" SourceBufferParser

definition startOnMainThread :: "Thread \<Rightarrow> ByteSource option \<Rightarrow> error + MainThreadTask" where
  "startOnMainThread thread byteSource =
     (if isMainThread thread then Inl AssertionFailure
      else Inr (ParseByteSourceTask byteSource))"

text \<open>\<^verbatim>\<open>parseByteSource\<close> (lines 85-125). \<open>created\<close> is what
  \<^verbatim>\<open>SourceBufferParser::create(contentType)\<close> returned. When it is null the status
  is set and nothing else is touched; otherwise the four members are reset and the
  parsing work is dispatched.\<close>

definition parseByteSource ::
  "Thread \<Rightarrow> SourceBufferParser option \<Rightarrow> ByteSource option \<Rightarrow> FormatReader
     \<Rightarrow> error + (FormatReader \<times> ReaderQueueTask option)" where
  "parseByteSource thread created byteSource s =
     (if \<not> isMainThread thread then Inl AssertionFailure
      else case created of
        None \<Rightarrow>
          Inr (s\<lparr>m_parseTracksStatus := Some kMTPluginFormatReaderError_AllocationFailure\<rparr>, None)
      | Some parser \<Rightarrow>
          let parser1 = parser\<lparr>minimumAudioSampleDuration := 0\<rparr>;
              s1 = s\<lparr>m_byteSource := byteSource,
                     m_parseTracksStatus := None,
                     m_duration := invalidTime,
                     m_trackReaders := []\<rparr>;
              parser2 = parser1\<lparr>didParseInitializationDataCallback := True,
                                didEncounterErrorDuringParsingCallback := True,
                                didProvideMediaDataCallback := True\<rparr>
          in Inr (s1, Some (AppendDataTask (m_byteSource s1) parser2)))"

fun performMainThreadTask ::
  "SourceBufferParser option \<Rightarrow> MainThreadTask \<Rightarrow> FormatReader
     \<Rightarrow> error + (FormatReader \<times> ReaderQueueTask option)" where
  "performMainThreadTask created (ParseByteSourceTask byteSource) s =
     parseByteSource MainThread created byteSource s"

subsection \<open>The initialization and error callbacks\<close>

text \<open>The three loops of \<^verbatim>\<open>didParseTracks\<close> (lines 139-158), each over one
  descriptor list, carrying \<^verbatim>\<open>m_trackReaders\<close>. \<open>n\<close> in the audio loop is
  \<^verbatim>\<open>segment.videoTracks.size()\<close>.\<close>

fun appendVideoTracks :: "Allocator \<Rightarrow> TrackPrivate list \<Rightarrow> TrackReader list \<Rightarrow> TrackReader list" where
  "appendVideoTracks alloc [] rs = rs"
| "appendVideoTracks alloc (videoTrack # rest) rs =
     (let rs1 = (case TrackReader_create alloc Video videoTrack of
                   Some trackReader \<Rightarrow> rs @ [trackReader]
                 | None \<Rightarrow> rs);
          rs2 = (if length rs1 = 1 then rs1[0 := setEnabled True (rs1 ! 0)] else rs1)
      in appendVideoTracks alloc rest rs2)"

fun appendAudioTracks ::
  "Allocator \<Rightarrow> nat \<Rightarrow> TrackPrivate list \<Rightarrow> TrackReader list \<Rightarrow> TrackReader list" where
  "appendAudioTracks alloc n [] rs = rs"
| "appendAudioTracks alloc n (audioTrack # rest) rs =
     (let rs1 = (case TrackReader_create alloc Audio audioTrack of
                   Some trackReader \<Rightarrow> rs @ [trackReader]
                 | None \<Rightarrow> rs);
          rs2 = (if length rs1 = n + 1 then rs1[n := setEnabled True (rs1 ! n)] else rs1)
      in appendAudioTracks alloc n rest rs2)"

fun appendTextTracks :: "Allocator \<Rightarrow> TrackPrivate list \<Rightarrow> TrackReader list \<Rightarrow> TrackReader list" where
  "appendTextTracks alloc [] rs = rs"
| "appendTextTracks alloc (textTrack # rest) rs =
     (let rs1 = (case TrackReader_create alloc Text textTrack of
                   Some trackReader \<Rightarrow> rs @ [trackReader]
                 | None \<Rightarrow> rs)
      in appendTextTracks alloc rest rs1)"

definition didParseTracks ::
  "Thread \<Rightarrow> InitializationSegment \<Rightarrow> 64 word \<Rightarrow> FormatReader \<Rightarrow> error + FormatReader" where
  "didParseTracks thread segment errorCode s =
     (if \<not> isMainThread thread then Inl AssertionFailure
      else if m_parseTracksStatus s \<noteq> None then Inl AssertionFailure
      else if \<not> isInvalid (m_duration s) then Inl AssertionFailure
      else if m_trackReaders s \<noteq> [] then Inl AssertionFailure
      else
        let status = (if errorCode \<noteq> 0 then kMTPluginFormatReaderError_ParsingFailure else noErr);
            rs1 = appendVideoTracks (allocator s) (videoTracks segment) (m_trackReaders s);
            rs2 = appendAudioTracks (allocator s) (length (videoTracks segment)) (audioTracks segment) rs1;
            rs3 = appendTextTracks (allocator s) (textTracks segment) rs2
        in Inr (s\<lparr>m_parseTracksStatus := Some status,
                  m_duration := duration segment,
                  m_trackReaders := rs3\<rparr>))"

subsection \<open>Media samples and the end of parsing\<close>

text \<open>\<^verbatim>\<open>Vector::findMatching\<close>: the index of the first element that satisfies the
  predicate, \<^verbatim>\<open>notFound\<close> being \<open>None\<close>.\<close>

fun findMatching :: "('a \<Rightarrow> bool) \<Rightarrow> 'a list \<Rightarrow> nat option" where
  "findMatching P [] = None"
| "findMatching P (x # xs) =
     (if P x then Some 0
      else case findMatching P xs of None \<Rightarrow> None | Some i \<Rightarrow> Some (Suc i))"

definition didProvideMediaData ::
  "Thread \<Rightarrow> MediaSample \<Rightarrow> 64 word \<Rightarrow> string \<Rightarrow> FormatReader \<Rightarrow> error + FormatReader" where
  "didProvideMediaData thread mediaSample trackId mediaTypeHint s =
     (if \<not> isMainThread thread then Inl AssertionFailure
      else case findMatching (\<lambda>track. trackID track = trackId) (m_trackReaders s) of
        None \<Rightarrow> Inr s
      | Some trackIndex \<Rightarrow>
          Inr (s\<lparr>m_trackReaders :=
                   (m_trackReaders s)[trackIndex :=
                      addSample mediaSample (m_byteSource s) (m_trackReaders s ! trackIndex)]\<rparr>))"

definition finishParsing ::
  "Thread \<Rightarrow> SourceBufferParser \<Rightarrow> FormatReader \<Rightarrow> error + (FormatReader \<times> SourceBufferParser)" where
  "finishParsing thread parser s =
     (if \<not> isMainThread thread then Inl AssertionFailure
      else if m_parseTracksStatus s = None then Inl AssertionFailure
      else
        Inr (s\<lparr>m_trackReaders := map TrackReader_finishParsing (m_trackReaders s)\<rparr>,
             resetParserState
               (parser\<lparr>didParseInitializationDataCallback := False,
                       didEncounterErrorDuringParsingCallback := False,
                       didProvideMediaDataCallback := False\<rparr>)))"

subsection \<open>The query interface\<close>

text \<open>
  A query takes the lock and waits on the condition until
  \<^verbatim>\<open>m_parseTracksStatus.hasValue()\<close>. \<open>Waiting\<close> is the call that has not
  returned because the predicate is false in the state it sees; \<open>Returned status value\<close>
  is the call's status and, when it wrote one, the value it handed out. A waiting call
  looks at the reader again when \<^verbatim>\<open>didParseTracks\<close> has notified the condition
  (line 160), so what it returns is the query function at some later state in which the
  status is set.
\<close>

datatype 'a QueryResult = Waiting | Returned OSStatus "'a option"

type_synonym CFString = string

text \<open>The key constant is declared by the platform (outside the source files); the
  reader only compares a key with it.\<close>

definition kMTPluginFormatReaderProperty_Duration :: CFString where
  "kMTPluginFormatReaderProperty_Duration = ''Duration''"

text \<open>\<^verbatim>\<open>copyProperty\<close> (lines 192-207). \<open>copyAsDictionary\<close> stands for the
  platform's \<^verbatim>\<open>CMTimeCopyAsDictionary(PAL::toCMTime(_), allocator)\<close>, which yields
  a dictionary or null.\<close>

definition copyProperty ::
  "(MediaTime \<Rightarrow> 'd option) \<Rightarrow> CFString \<Rightarrow> FormatReader \<Rightarrow> 'd QueryResult" where
  "copyProperty copyAsDictionary key s =
     (if m_parseTracksStatus s = None then Waiting
      else if key = kMTPluginFormatReaderProperty_Duration then
        (case copyAsDictionary (m_duration s) of
           Some leakedDuration \<Rightarrow> Returned noErr (Some leakedDuration)
         | None \<Rightarrow> Returned kCMBaseObjectError_ValueNotAvailable None)
      else Returned kCMBaseObjectError_ValueNotAvailable None)"

text \<open>\<^verbatim>\<open>copyTrackArray\<close> (lines 209-227): the array holds the readers'
  wrappers in the order of \<^verbatim>\<open>m_trackReaders\<close>; the model hands out the readers.
  The two array allocations are taken to succeed, as the code takes them.\<close>

definition copyTrackArray :: "Thread \<Rightarrow> FormatReader \<Rightarrow> error + (TrackReader list) QueryResult" where
  "copyTrackArray thread s =
     (if isMainThread thread then Inl AssertionFailure
      else case m_parseTracksStatus s of
        None \<Rightarrow> Inr Waiting
      | Some status \<Rightarrow>
          if status \<noteq> noErr then Inr (Returned status None)
          else Inr (Returned noErr (Some (m_trackReaders s))))"

subsection \<open>Runs of main-thread events\<close>

text \<open>The events that reach the reader on the main thread: a start (with the result of
  creating the parser), the three parser callbacks, and the end of parsing.\<close>

datatype event =
    ParseByteSource "SourceBufferParser option" "ByteSource option"
  | DidParseTracks InitializationSegment "64 word"
  | DidProvideMediaData MediaSample "64 word" string
  | FinishParsing SourceBufferParser

fun step :: "event \<Rightarrow> FormatReader \<Rightarrow> error + FormatReader" where
  "step (ParseByteSource created byteSource) s =
     map_sum id fst (parseByteSource MainThread created byteSource s)"
| "step (DidParseTracks segment errorCode) s = didParseTracks MainThread segment errorCode s"
| "step (DidProvideMediaData mediaSample trackId hint) s =
     didProvideMediaData MainThread mediaSample trackId hint s"
| "step (FinishParsing parser) s = map_sum id fst (finishParsing MainThread parser s)"

fun run :: "event list \<Rightarrow> FormatReader \<Rightarrow> error + FormatReader" where
  "run [] s = Inr s"
| "run (e # es) s = (case step e s of Inl err \<Rightarrow> Inl err | Inr s' \<Rightarrow> run es s')"

fun isParseByteSource :: "event \<Rightarrow> bool" where
  "isParseByteSource (ParseByteSource created byteSource) = True"
| "isParseByteSource e = False"

fun isDidParseTracks :: "event \<Rightarrow> bool" where
  "isDidParseTracks (DidParseTracks segment errorCode) = True"
| "isDidParseTracks e = False"

subsection \<open>Notions used in the statements\<close>

text \<open>What identifies a channel in the track list and what a consumer sees of its
  selection: the id, the kind and the enabled flag. The samples and the finished marking
  are the changing contents of the channel behind the handle.\<close>

definition trackIdentity :: "TrackReader \<Rightarrow> 64 word \<times> TrackKind \<times> bool" where
  "trackIdentity r = (trackID r, mediaType r, enabled r)"

text \<open>The readers the three loops build from an empty list.\<close>

definition parsedTrackReaders :: "Allocator \<Rightarrow> InitializationSegment \<Rightarrow> TrackReader list" where
  "parsedTrackReaders alloc segment =
     appendTextTracks alloc (textTracks segment)
       (appendAudioTracks alloc (length (videoTracks segment)) (audioTracks segment)
          (appendVideoTracks alloc (videoTracks segment) []))"

text \<open>The status the callback records for an error code (line 136).\<close>

definition statusOf :: "64 word \<Rightarrow> OSStatus" where
  "statusOf errorCode = (if errorCode \<noteq> 0 then kMTPluginFormatReaderError_ParsingFailure else noErr)"

text \<open>Allocators for concrete runs: one that always succeeds, one that always fails.\<close>

definition reliableAllocator :: Allocator where
  "reliableAllocator t = True"

definition failingAllocator :: Allocator where
  "failingAllocator t = False"

text \<open>A freshly created parser, as \<^verbatim>\<open>SourceBufferParser::create\<close> returns it.\<close>

definition newParser :: SourceBufferParser where
  "newParser = \<lparr>minimumAudioSampleDuration = 1,
      didParseInitializationDataCallback = False,
      didEncounterErrorDuringParsingCallback = False,
      didProvideMediaDataCallback = False,
      hasParserState = False\<rparr>"

text \<open>A concrete container: one video track (id 1), one audio track (id 2), and the
  reader after parsing it from byte source 1 and receiving one sample for track 1.\<close>

definition twoTrackSegment :: InitializationSegment where
  "twoTrackSegment =
     \<lparr>duration = validTime 12, videoTracks = [1], audioTracks = [2], textTracks = []\<rparr>"

definition twoTrackReaders :: "TrackReader list" where
  "twoTrackReaders =
     [\<lparr>trackID = 1, mediaType = Video, enabled = True, samples = [(7, Some 1)], finished = False\<rparr>,
      \<lparr>trackID = 2, mediaType = Audio, enabled = True, samples = [], finished = False\<rparr>]"

definition twoTrackState :: FormatReader where
  "twoTrackState =
     \<lparr>allocator = reliableAllocator, m_byteSource = Some 1, m_duration = validTime 12,
      m_parseTracksStatus = Some noErr, m_trackReaders = twoTrackReaders\<rparr>"

fun isDidProvideMediaData :: "event \<Rightarrow> bool" where
  "isDidProvideMediaData (DidProvideMediaData mediaSample trackId hint) = True"
| "isDidProvideMediaData e = False"

text \<open>The reader \<^verbatim>\<open>TrackReader::create\<close> yields when the allocation succeeds, and
  the readers of one descriptor list when every allocation succeeds and the first of them
  has been enabled.\<close>

definition disabledReader :: "TrackKind \<Rightarrow> TrackPrivate \<Rightarrow> TrackReader" where
  "disabledReader k t =
     \<lparr>trackID = t, mediaType = k, enabled = False, samples = [], finished = False\<rparr>"

definition firstEnabled :: "TrackKind \<Rightarrow> TrackPrivate list \<Rightarrow> TrackReader list" where
  "firstEnabled k ts =
     (case ts of
        [] \<Rightarrow> []
      | t # rest \<Rightarrow> setEnabled True (disabledReader k t) # map (disabledReader k) rest)"

text \<open>The reader after a start from byte source 1 whose parser reported an error at once;
  \<open>d\<close> is the duration of the empty segment.\<close>

definition failedState :: "MediaTime \<Rightarrow> FormatReader" where
  "failedState d =
     \<lparr>allocator = reliableAllocator, m_byteSource = Some 1, m_duration = d,
      m_parseTracksStatus = Some kMTPluginFormatReaderError_ParsingFailure,
      m_trackReaders = []\<rparr>"

section \<open>Auxiliary facts\<close>

lemma status_distinct:
  "kMTPluginFormatReaderError_ParsingFailure \<noteq> noErr"
  "kMTPluginFormatReaderError_AllocationFailure \<noteq> noErr"
  "kCMBaseObjectError_ValueNotAvailable \<noteq> noErr"
  by (simp_all add: kMTPluginFormatReaderError_ParsingFailure_def
      kMTPluginFormatReaderError_AllocationFailure_def kCMBaseObjectError_ValueNotAvailable_def noErr_def)

lemma setEnabled_fields [simp]:
  "trackID (setEnabled b r) = trackID r"
  "mediaType (setEnabled b r) = mediaType r"
  "samples (setEnabled b r) = samples r"
  "finished (setEnabled b r) = finished r"
  "enabled (setEnabled b r) = b"
  by (simp_all add: setEnabled_def)

lemma map_update_same:
  assumes "f y = f (rs ! i)"
  shows "map f (rs[i := y]) = map f rs"
proof (cases "i < length rs")
  case True
  have "map f (rs[i := y]) = (map f rs)[i := f y]" by (simp add: map_update)
  also have "\<dots> = map f rs" using True assms by (simp add: list_update_same_conv)
  finally show ?thesis .
next
  case False
  then show ?thesis by (simp add: list_update_beyond)
qed

lemma trackIdentity_addSample [simp]: "trackIdentity (addSample m b r) = trackIdentity r"
  by (simp add: trackIdentity_def addSample_def)

lemma trackIdentity_finishParsing [simp]:
  "trackIdentity (TrackReader_finishParsing r) = trackIdentity r"
  by (simp add: trackIdentity_def TrackReader_finishParsing_def)

lemma didParseTracks_Inr:
  assumes "didParseTracks MainThread segment errorCode s = Inr s'"
  shows "m_parseTracksStatus s = None \<and> m_duration s = invalidTime \<and> m_trackReaders s = [] \<and>
         s' = s\<lparr>m_parseTracksStatus := Some (statusOf errorCode),
                m_duration := duration segment,
                m_trackReaders := parsedTrackReaders (allocator s) segment\<rparr>"
proof -
  from assms have a: "m_parseTracksStatus s = None" and b: "isInvalid (m_duration s)"
    and c: "m_trackReaders s = []"
    by (auto simp: didParseTracks_def split: if_splits)
  from b have b': "m_duration s = invalidTime" by (cases "m_duration s") simp_all
  from assms a b c show ?thesis
    by (simp add: didParseTracks_def b' Let_def parsedTrackReaders_def statusOf_def)
qed

lemma didParseTracks_concluded:
  "m_parseTracksStatus s \<noteq> None \<Longrightarrow> didParseTracks thread segment errorCode s = Inl AssertionFailure"
  by (simp add: didParseTracks_def)

lemma didProvideMediaData_frame:
  assumes "didProvideMediaData MainThread m t h s = Inr s'"
  shows "m_parseTracksStatus s' = m_parseTracksStatus s \<and> m_duration s' = m_duration s \<and>
         allocator s' = allocator s \<and> m_byteSource s' = m_byteSource s \<and>
         map trackIdentity (m_trackReaders s') = map trackIdentity (m_trackReaders s)"
  using assms
  by (auto simp: didProvideMediaData_def map_update_same split: option.splits)

lemma finishParsing_frame:
  assumes "finishParsing MainThread p s = Inr (s', p')"
  shows "m_parseTracksStatus s \<noteq> None \<and>
         m_parseTracksStatus s' = m_parseTracksStatus s \<and> m_duration s' = m_duration s \<and>
         allocator s' = allocator s \<and> m_byteSource s' = m_byteSource s \<and>
         map trackIdentity (m_trackReaders s') = map trackIdentity (m_trackReaders s)"
  using assms
  by (auto simp: finishParsing_def split: if_splits)

lemma step_concluded:
  assumes "step e s = Inr s'" and "\<not> isParseByteSource e" and "m_parseTracksStatus s \<noteq> None"
  shows "\<not> isDidParseTracks e \<and>
         m_parseTracksStatus s' = m_parseTracksStatus s \<and> m_duration s' = m_duration s \<and>
         allocator s' = allocator s \<and>
         map trackIdentity (m_trackReaders s') = map trackIdentity (m_trackReaders s)"
proof (cases e)
  case (ParseByteSource c b)
  with assms(2) show ?thesis by simp
next
  case (DidParseTracks seg err)
  with assms(1,3) show ?thesis by (simp add: didParseTracks_concluded)
next
  case (DidProvideMediaData m t h)
  with assms(1) show ?thesis using didProvideMediaData_frame[of m t h s s'] by simp
next
  case (FinishParsing p)
  with assms(1) obtain p' where "finishParsing MainThread p s = Inr (s', p')"
    by (cases "finishParsing MainThread p s") auto
  with FinishParsing show ?thesis using finishParsing_frame[of p s s' p'] by simp
qed

lemma run_concluded:
  assumes "run es s = Inr s'" and "\<forall>e \<in> set es. \<not> isParseByteSource e"
    and "m_parseTracksStatus s \<noteq> None"
  shows "filter isDidParseTracks es = [] \<and>
         m_parseTracksStatus s' = m_parseTracksStatus s \<and> m_duration s' = m_duration s \<and>
         allocator s' = allocator s \<and>
         map trackIdentity (m_trackReaders s') = map trackIdentity (m_trackReaders s)"
  using assms
proof (induction es arbitrary: s)
  case Nil
  then show ?case by simp
next
  case (Cons e es)
  from Cons.prems(1) obtain s1 where s1: "step e s = Inr s1" and r: "run es s1 = Inr s'"
    by (cases "step e s") auto
  from Cons.prems(2) have ne: "\<not> isParseByteSource e" and nes: "\<forall>e \<in> set es. \<not> isParseByteSource e"
    by simp_all
  note sc = step_concluded[OF s1 ne Cons.prems(3)]
  from sc Cons.prems(3) have "m_parseTracksStatus s1 \<noteq> None" by simp
  from Cons.IH[OF r nes this] sc show ?case by simp
qed

lemma finishParsing_idem_reader [simp]:
  "TrackReader_finishParsing (TrackReader_finishParsing r) = TrackReader_finishParsing r"
  by (simp add: TrackReader_finishParsing_def)

lemma samples_finishParsing [simp]:
  "samples (TrackReader_finishParsing r) = samples r"
  by (simp add: TrackReader_finishParsing_def)

lemma findMatching_None:
  "(findMatching P xs = None) = (\<forall>x \<in> set xs. \<not> P x)"
  by (induction xs) (auto split: option.splits)

lemma run_append:
  "run (xs @ ys) s = (case run xs s of Inl err \<Rightarrow> Inl err | Inr s' \<Rightarrow> run ys s')"
  by (induction xs arbitrary: s) (auto split: sum.splits)

lemma run_samples_unset:
  assumes "\<forall>e \<in> set es. isDidProvideMediaData e" and "m_parseTracksStatus s = None"
  shows "\<exists>s'. run es s = Inr s' \<and> m_parseTracksStatus s' = None"
  using assms
proof (induction es arbitrary: s)
  case Nil
  then show ?case by simp
next
  case (Cons e es)
  from Cons.prems(1) obtain m t h where e: "e = DidProvideMediaData m t h"
    by (cases e) simp_all
  obtain s1 where s1: "step e s = Inr s1" "m_parseTracksStatus s1 = m_parseTracksStatus s"
    unfolding e by (cases "findMatching (\<lambda>track. trackID track = t) (m_trackReaders s)")
      (simp_all add: didProvideMediaData_def)
  with Cons.prems have "\<exists>s'. run es s1 = Inr s' \<and> m_parseTracksStatus s' = None"
    by (intro Cons.IH) simp_all
  with s1 show ?case by simp
qed

text \<open>The concrete state is the one the reader reaches on the concrete container.\<close>

lemma twoTrackState_reached:
  "run [ParseByteSource (Some newParser) (Some 1), DidParseTracks twoTrackSegment 0,
        DidProvideMediaData 7 1 ''video'']
     (FormatReader_new reliableAllocator) = Inr twoTrackState"
  by (simp add: parseByteSource_def didParseTracks_def didProvideMediaData_def FormatReader_new_def
      twoTrackSegment_def twoTrackState_def twoTrackReaders_def TrackReader_create_def
      reliableAllocator_def setEnabled_def addSample_def noErr_def Let_def)

lemma create_allocated: "alloc t \<Longrightarrow> TrackReader_create alloc k t = Some (disabledReader k t)"
  by (simp add: TrackReader_create_def disabledReader_def)

lemma appendVideoTracks_tail:
  assumes "rs \<noteq> []" and "enabled (rs ! 0)" and "\<forall>t \<in> set vs. alloc t"
  shows "appendVideoTracks alloc vs rs = rs @ map (disabledReader Video) vs"
  using assms
proof (induction vs arbitrary: rs)
  case Nil
  then show ?case by simp
next
  case (Cons v vs)
  from Cons.prems(1) have len: "length (rs @ [disabledReader Video v]) \<noteq> 1"
    by (cases rs) simp_all
  have step: "appendVideoTracks alloc (v # vs) rs =
      appendVideoTracks alloc vs (rs @ [disabledReader Video v])"
    using Cons.prems(3) len by (simp add: create_allocated Let_def del: One_nat_def)
  have "appendVideoTracks alloc vs (rs @ [disabledReader Video v]) =
      (rs @ [disabledReader Video v]) @ map (disabledReader Video) vs"
    using Cons.prems by (intro Cons.IH) (simp_all add: nth_append)
  with step show ?case by simp
qed

lemma appendVideoTracks_all:
  assumes "\<forall>t \<in> set vs. alloc t"
  shows "appendVideoTracks alloc vs [] = firstEnabled Video vs"
proof (cases vs)
  case Nil
  then show ?thesis by (simp add: firstEnabled_def)
next
  case (Cons v rest)
  have "appendVideoTracks alloc (v # rest) [] =
      appendVideoTracks alloc rest [setEnabled True (disabledReader Video v)]"
    using assms Cons by (simp add: create_allocated Let_def)
  also have "\<dots> = [setEnabled True (disabledReader Video v)] @ map (disabledReader Video) rest"
    using assms Cons by (intro appendVideoTracks_tail) simp_all
  finally show ?thesis using Cons by (simp add: firstEnabled_def)
qed

lemma appendAudioTracks_tail:
  assumes "n < length rs" and "\<forall>t \<in> set as. alloc t"
  shows "appendAudioTracks alloc n as rs = rs @ map (disabledReader Audio) as"
  using assms
proof (induction as arbitrary: rs)
  case Nil
  then show ?case by simp
next
  case (Cons a as)
  have step: "appendAudioTracks alloc n (a # as) rs =
      appendAudioTracks alloc n as (rs @ [disabledReader Audio a])"
    using Cons.prems by (simp add: create_allocated Let_def)
  have "appendAudioTracks alloc n as (rs @ [disabledReader Audio a]) =
      (rs @ [disabledReader Audio a]) @ map (disabledReader Audio) as"
    using Cons.prems by (intro Cons.IH) simp_all
  with step show ?case by simp
qed

lemma appendAudioTracks_all:
  assumes "length rs = n" and "\<forall>t \<in> set as. alloc t"
  shows "appendAudioTracks alloc n as rs = rs @ firstEnabled Audio as"
proof (cases as)
  case Nil
  then show ?thesis by (simp add: firstEnabled_def)
next
  case (Cons a rest)
  from assms(1) have n: "n = length rs" by simp
  have "appendAudioTracks alloc n (a # rest) rs =
      appendAudioTracks alloc n rest (rs @ [setEnabled True (disabledReader Audio a)])"
    using assms(2) Cons by (simp add: n create_allocated Let_def)
  also have "\<dots> = (rs @ [setEnabled True (disabledReader Audio a)]) @ map (disabledReader Audio) rest"
    using assms Cons by (intro appendAudioTracks_tail) simp_all
  finally show ?thesis using Cons by (simp add: firstEnabled_def)
qed

lemma appendTextTracks_all:
  assumes "\<forall>t \<in> set ts. alloc t"
  shows "appendTextTracks alloc ts rs = rs @ map (disabledReader Text) ts"
  using assms by (induction ts arbitrary: rs) (simp_all add: create_allocated)

lemma length_firstEnabled [simp]: "length (firstEnabled k ts) = length ts"
  by (simp add: firstEnabled_def split: list.splits)

lemma parsedTrackReaders_all:
  assumes "\<forall>t \<in> set (videoTracks segment @ audioTracks segment @ textTracks segment). alloc t"
  shows "parsedTrackReaders alloc segment =
     firstEnabled Video (videoTracks segment) @ firstEnabled Audio (audioTracks segment) @
     map (disabledReader Text) (textTracks segment)"
  using assms
  by (simp add: parsedTrackReaders_def appendVideoTracks_all appendAudioTracks_all appendTextTracks_all)

lemma enabled_firstEnabled:
  "i < length ts \<Longrightarrow> enabled (firstEnabled k ts ! i) = (i = 0)"
  by (cases ts; cases i) (simp_all add: firstEnabled_def disabledReader_def)

lemma enabled_disabledReader [simp]: "enabled (disabledReader k t) = False"
  by (simp add: disabledReader_def)

lemma filter_enabled_firstEnabled:
  "length (filter enabled (firstEnabled k ts)) = (if ts = [] then 0 else 1)"
  by (cases ts) (simp_all add: firstEnabled_def comp_def)

lemma mediaType_firstEnabled: "map mediaType (firstEnabled k ts) = replicate (length ts) k"
  by (cases ts) (simp_all add: firstEnabled_def disabledReader_def comp_def map_replicate_const)

lemma trackID_firstEnabled: "map trackID (firstEnabled k ts) = ts"
  by (cases ts) (simp_all add: firstEnabled_def disabledReader_def comp_def)

lemma parseByteSource_resets:
  "step (ParseByteSource (Some parser) byteSource) s0 =
     Inr \<lparr>allocator = allocator s0, m_byteSource = byteSource, m_duration = invalidTime,
          m_parseTracksStatus = None, m_trackReaders = []\<rparr>"
  by (simp add: parseByteSource_def Let_def)

lemma run_unset:
  assumes "run g s = Inr s'" and "\<forall>e \<in> set g. \<not> isParseByteSource e"
    and "m_parseTracksStatus s = None" and "m_duration s = invalidTime" and "m_trackReaders s = []"
  shows "filter isDidParseTracks g = [] \<and> m_parseTracksStatus s' = None \<and>
           m_duration s' = invalidTime \<and> m_trackReaders s' = [] \<or>
         (\<exists>segment errorCode.
            filter isDidParseTracks g = [DidParseTracks segment errorCode] \<and>
            m_parseTracksStatus s' = Some (statusOf errorCode) \<and>
            m_duration s' = duration segment \<and>
            map trackIdentity (m_trackReaders s') =
              map trackIdentity (parsedTrackReaders (allocator s) segment))"
  using assms
proof (induction g arbitrary: s)
  case Nil
  then show ?case by simp
next
  case (Cons e g)
  from Cons.prems(1) obtain s1 where s1: "step e s = Inr s1" and r: "run g s1 = Inr s'"
    by (cases "step e s") auto
  from Cons.prems(2) have ne: "\<not> isParseByteSource e"
    and ng: "\<forall>e \<in> set g. \<not> isParseByteSource e" by simp_all
  show ?case
  proof (cases e)
    case (ParseByteSource c b)
    with ne show ?thesis by simp
  next
    case (DidParseTracks segment errorCode)
    with s1 have d: "didParseTracks MainThread segment errorCode s = Inr s1" by simp
    note eq = didParseTracks_Inr[OF d]
    from eq have set1: "m_parseTracksStatus s1 \<noteq> None" by simp
    note rc = run_concluded[OF r ng set1]
    from eq rc have "filter isDidParseTracks (e # g) = [DidParseTracks segment errorCode] \<and>
        m_parseTracksStatus s' = Some (statusOf errorCode) \<and>
        m_duration s' = duration segment \<and>
        map trackIdentity (m_trackReaders s') =
          map trackIdentity (parsedTrackReaders (allocator s) segment)"
      by (simp add: DidParseTracks)
    then show ?thesis by blast
  next
    case (DidProvideMediaData m t h)
    with s1 Cons.prems(5) have "s1 = s" by (simp add: didProvideMediaData_def)
    with Cons.IH[OF r ng] Cons.prems(3,4,5) show ?thesis by (simp add: DidProvideMediaData)
  next
    case (FinishParsing p)
    with s1 Cons.prems(3) show ?thesis by (simp add: finishParsing_def)
  qed
qed

lemma descriptor_appendVideoTracks:
  "map (\<lambda>r. (mediaType r, trackID r)) (appendVideoTracks alloc vs rs) =
     map (\<lambda>r. (mediaType r, trackID r)) rs @ map (Pair Video) (filter alloc vs)"
  by (induction vs arbitrary: rs)
     (simp_all add: TrackReader_create_def Let_def map_update_same del: One_nat_def)

lemma descriptor_appendAudioTracks:
  "map (\<lambda>r. (mediaType r, trackID r)) (appendAudioTracks alloc n as rs) =
     map (\<lambda>r. (mediaType r, trackID r)) rs @ map (Pair Audio) (filter alloc as)"
  by (induction as arbitrary: rs)
     (simp_all add: TrackReader_create_def Let_def map_update_same)

lemma descriptor_appendTextTracks:
  "map (\<lambda>r. (mediaType r, trackID r)) (appendTextTracks alloc ts rs) =
     map (\<lambda>r. (mediaType r, trackID r)) rs @ map (Pair Text) (filter alloc ts)"
  by (induction ts arbitrary: rs)
     (simp_all add: TrackReader_create_def Let_def)

lemma descriptor_parsedTrackReaders:
  "map (\<lambda>r. (mediaType r, trackID r)) (parsedTrackReaders alloc segment) =
     map (Pair Video) (filter alloc (videoTracks segment)) @
     map (Pair Audio) (filter alloc (audioTracks segment)) @
     map (Pair Text) (filter alloc (textTracks segment))"
  by (simp add: parsedTrackReaders_def descriptor_appendTextTracks descriptor_appendAudioTracks
      descriptor_appendVideoTracks)

lemma descriptor_of_identity:
  assumes "map trackIdentity xs = map trackIdentity ys"
  shows "map (\<lambda>r. (mediaType r, trackID r)) xs = map (\<lambda>r. (mediaType r, trackID r)) ys"
proof -
  have eq: "map (\<lambda>r. (mediaType r, trackID r)) zs =
      map (\<lambda>p. (fst (snd p), fst p)) (map trackIdentity zs)" for zs
    by (induction zs) (simp_all add: trackIdentity_def)
  show ?thesis by (simp only: eq assms)
qed

lemma run_start:
  "run (ParseByteSource (Some parser) byteSource # es) s0 =
     run es \<lparr>allocator = allocator s0, m_byteSource = byteSource, m_duration = invalidTime,
             m_parseTracksStatus = None, m_trackReaders = []\<rparr>"
  by (simp add: parseByteSource_resets del: step.simps)

lemma failedState_reached:
  "run [ParseByteSource (Some newParser) (Some 1), DidParseTracks (emptySegment d) 5]
     (FormatReader_new reliableAllocator) = Inr (failedState d)"
  by (simp add: parseByteSource_def didParseTracks_def FormatReader_new_def emptySegment_def
      failedState_def Let_def)

section \<open>The claims\<close>

subsection \<open>One conclusion per generation\<close>

text \<open>
  C1, as amended. Take a parse generation whose parser was created: a
  \<^verbatim>\<open>parseByteSource\<close> that reaches the reset, from any earlier state \<open>s0\<close> of the
  reader (so after any earlier generations), followed by events \<open>g\<close> of that generation
  that raise no assertion. Then the generation holds at most one initialization or error
  callback. Before it, the status is unset, the duration invalid and the track list empty;
  from it on, the status is set, the duration is that callback's segment's and the track
  list is the one built from that segment, with nothing of \<open>s0\<close> left in them. Each event
  is one critical section, so the three members change together.
\<close>

theorem generation_concludes_once:
  assumes "run (ParseByteSource (Some parser) byteSource # g) s0 = Inr s"
    and "\<forall>e \<in> set g. \<not> isParseByteSource e"
  shows "filter isDidParseTracks g = [] \<and> m_parseTracksStatus s = None \<and>
           m_duration s = invalidTime \<and> m_trackReaders s = [] \<or>
         (\<exists>segment errorCode.
            filter isDidParseTracks g = [DidParseTracks segment errorCode] \<and>
            m_parseTracksStatus s = Some (statusOf errorCode) \<and>
            m_duration s = duration segment \<and>
            map trackIdentity (m_trackReaders s) =
              map trackIdentity (parsedTrackReaders (allocator s0) segment))"
proof -
  let ?s1 = "\<lparr>allocator = allocator s0, m_byteSource = byteSource, m_duration = invalidTime,
          m_parseTracksStatus = None, m_trackReaders = []\<rparr>"
  from assms(1) have r: "run g ?s1 = Inr s"
    by (simp add: parseByteSource_resets del: step.simps)
  from run_unset[OF r assms(2)] show ?thesis by simp
qed

theorem generation_concludes_once_witness:
  "m_parseTracksStatus twoTrackState = Some (statusOf 0) \<and>
   m_duration twoTrackState = duration twoTrackSegment \<and>
   map trackIdentity (m_trackReaders twoTrackState) =
     map trackIdentity (parsedTrackReaders reliableAllocator twoTrackSegment)"
proof -
  have n: "\<forall>e \<in> set [DidParseTracks twoTrackSegment 0, DidProvideMediaData 7 1 ''video''].
      \<not> isParseByteSource e" by simp
  have r: "run (ParseByteSource (Some newParser) (Some 1) #
      [DidParseTracks twoTrackSegment 0, DidProvideMediaData 7 1 ''video''])
     (FormatReader_new reliableAllocator) = Inr twoTrackState"
    using twoTrackState_reached by simp
  from generation_concludes_once[OF r n] show ?thesis
    by (simp add: FormatReader_new_def)
qed

text \<open>
  The claim as stated fails for a start whose parser cannot be created (line 91): it
  overwrites the set status and returns, so the duration and the readers of the generation
  before stay in place and the duration query hands out the old duration.
\<close>

theorem failed_start_keeps_stale_state_counterexample:
  "run [ParseByteSource (Some newParser) (Some 1), DidParseTracks twoTrackSegment 0,
        DidProvideMediaData 7 1 ''video'', FinishParsing newParser,
        ParseByteSource None (Some 2)]
     (FormatReader_new reliableAllocator) =
     Inr \<lparr>allocator = reliableAllocator, m_byteSource = Some 1, m_duration = validTime 12,
          m_parseTracksStatus = Some kMTPluginFormatReaderError_AllocationFailure,
          m_trackReaders = map TrackReader_finishParsing twoTrackReaders\<rparr> \<and>
   copyProperty Some kMTPluginFormatReaderProperty_Duration
     \<lparr>allocator = reliableAllocator, m_byteSource = Some 1, m_duration = validTime 12,
      m_parseTracksStatus = Some kMTPluginFormatReaderError_AllocationFailure,
      m_trackReaders = map TrackReader_finishParsing twoTrackReaders\<rparr> =
     Returned noErr (Some (validTime 12))"
  by (simp add: parseByteSource_def didParseTracks_def didProvideMediaData_def finishParsing_def
      FormatReader_new_def twoTrackSegment_def twoTrackReaders_def TrackReader_create_def
      reliableAllocator_def setEnabled_def addSample_def copyProperty_def
      TrackReader_finishParsing_def Let_def)

subsection \<open>The track list\<close>

text \<open>
  C2, as amended. After a start and the collaborator's report of success (error code 0),
  and whatever samples and end of parsing follow in that generation,
  \<^verbatim>\<open>copyTrackArray\<close> called off the main thread returns \<^verbatim>\<open>noErr\<close> and the
  readers of the descriptors whose reader could be created, in the order video, audio,
  text and, within a kind, in the segment's order; a descriptor whose reader cannot be
  created is skipped. When every reader can be created the filters are the identity and
  the list matches the three descriptor lists one to one.
\<close>

theorem copyTrackArray_created_tracks_in_order:
  assumes "\<not> isMainThread thread"
    and "run (ParseByteSource (Some parser) byteSource # DidParseTracks segment 0 # g) s0 = Inr s"
    and "\<forall>e \<in> set g. \<not> isParseByteSource e"
  shows "\<exists>tracks. copyTrackArray thread s = Inr (Returned noErr (Some tracks)) \<and>
           map (\<lambda>r. (mediaType r, trackID r)) tracks =
             map (Pair Video) (filter (allocator s0) (videoTracks segment)) @
             map (Pair Audio) (filter (allocator s0) (audioTracks segment)) @
             map (Pair Text) (filter (allocator s0) (textTracks segment))"
proof -
  let ?s1 = "\<lparr>allocator = allocator s0, m_byteSource = byteSource, m_duration = invalidTime,
          m_parseTracksStatus = None, m_trackReaders = []\<rparr>"
  from assms(2) have r: "run (DidParseTracks segment 0 # g) ?s1 = Inr s"
    by (simp only: run_start)
  from assms(3) have n: "\<forall>e \<in> set (DidParseTracks segment 0 # g). \<not> isParseByteSource e"
    by simp
  from run_unset[OF r n] have st: "m_parseTracksStatus s = Some noErr"
    and ids: "map trackIdentity (m_trackReaders s) =
        map trackIdentity (parsedTrackReaders (allocator s0) segment)"
    by (auto simp: statusOf_def)
  from assms(1) st have "copyTrackArray thread s = Inr (Returned noErr (Some (m_trackReaders s)))"
    by (simp add: copyTrackArray_def)
  moreover from descriptor_of_identity[OF ids]
  have "map (\<lambda>r. (mediaType r, trackID r)) (m_trackReaders s) =
             map (Pair Video) (filter (allocator s0) (videoTracks segment)) @
             map (Pair Audio) (filter (allocator s0) (audioTracks segment)) @
             map (Pair Text) (filter (allocator s0) (textTracks segment))"
    by (simp add: descriptor_parsedTrackReaders)
  ultimately show ?thesis by blast
qed

theorem copyTrackArray_created_tracks_in_order_witness:
  "\<exists>tracks. copyTrackArray (OtherThread 1) twoTrackState = Inr (Returned noErr (Some tracks)) \<and>
     map (\<lambda>r. (mediaType r, trackID r)) tracks = [(Video, 1), (Audio, 2)]"
proof -
  have t: "\<not> isMainThread (OtherThread 1)" by simp
  have n: "\<forall>e \<in> set [DidProvideMediaData 7 1 ''video'']. \<not> isParseByteSource e" by simp
  have r: "run (ParseByteSource (Some newParser) (Some 1) # DidParseTracks twoTrackSegment 0 #
      [DidProvideMediaData 7 1 ''video'']) (FormatReader_new reliableAllocator) = Inr twoTrackState"
    using twoTrackState_reached by simp
  from copyTrackArray_created_tracks_in_order[OF t r n] show ?thesis
    by (simp add: FormatReader_new_def reliableAllocator_def twoTrackSegment_def)
qed

text \<open>
  The claim as stated fails when a reader cannot be created (the guard of lines 140, 148
  and 156): the segment declares two tracks and the returned list is empty.
\<close>

theorem skipped_track_counterexample:
  "run [ParseByteSource (Some newParser) (Some 1), DidParseTracks twoTrackSegment 0]
     (FormatReader_new failingAllocator) =
     Inr \<lparr>allocator = failingAllocator, m_byteSource = Some 1, m_duration = validTime 12,
          m_parseTracksStatus = Some noErr, m_trackReaders = []\<rparr> \<and>
   copyTrackArray (OtherThread 1)
     \<lparr>allocator = failingAllocator, m_byteSource = Some 1, m_duration = validTime 12,
      m_parseTracksStatus = Some noErr, m_trackReaders = []\<rparr> =
     Inr (Returned noErr (Some []))"
  by (simp add: parseByteSource_def didParseTracks_def FormatReader_new_def twoTrackSegment_def
      TrackReader_create_def failingAllocator_def copyTrackArray_def noErr_def Let_def)

subsection \<open>The enabled tracks\<close>

text \<open>
  C3, as amended. After a successful parse in which every reader is created, the track
  list is the video, audio and text descriptors in order, and the enabled readers are the
  first video track, when there is a video track, and the first audio track, when there is
  an audio track: one reader with one of the two kinds present, two with both, none with
  text tracks only. Text tracks are never enabled.
\<close>

theorem first_video_and_first_audio_enabled:
  assumes "\<forall>t \<in> set (videoTracks segment @ audioTracks segment @ textTracks segment). allocator s t"
    and "didParseTracks MainThread segment 0 s = Inr s'"
  shows "map trackID (m_trackReaders s') =
           videoTracks segment @ audioTracks segment @ textTracks segment \<and>
         map mediaType (m_trackReaders s') =
           replicate (length (videoTracks segment)) Video @
           replicate (length (audioTracks segment)) Audio @
           replicate (length (textTracks segment)) Text \<and>
         (\<forall>i < length (m_trackReaders s').
            enabled (m_trackReaders s' ! i) =
              (i = 0 \<and> videoTracks segment \<noteq> [] \<or>
               i = length (videoTracks segment) \<and> audioTracks segment \<noteq> [])) \<and>
         length (filter enabled (m_trackReaders s')) =
           (if videoTracks segment = [] then 0 else 1) + (if audioTracks segment = [] then 0 else 1)"
proof -
  let ?V = "firstEnabled Video (videoTracks segment)"
  let ?A = "firstEnabled Audio (audioTracks segment)"
  let ?T = "map (disabledReader Text) (textTracks segment)"
  from didParseTracks_Inr[OF assms(2)] parsedTrackReaders_all[OF assms(1)]
  have rs: "m_trackReaders s' = ?V @ ?A @ ?T" by simp
  have ids: "map trackID (m_trackReaders s') =
      videoTracks segment @ audioTracks segment @ textTracks segment"
    by (simp add: rs trackID_firstEnabled comp_def disabledReader_def)
  have kinds: "map mediaType (m_trackReaders s') =
      replicate (length (videoTracks segment)) Video @
      replicate (length (audioTracks segment)) Audio @
      replicate (length (textTracks segment)) Text"
    by (simp add: rs mediaType_firstEnabled comp_def disabledReader_def map_replicate_const)
  have flags: "\<forall>i < length (m_trackReaders s').
      enabled (m_trackReaders s' ! i) =
        (i = 0 \<and> videoTracks segment \<noteq> [] \<or>
         i = length (videoTracks segment) \<and> audioTracks segment \<noteq> [])"
  proof (intro allI impI)
    fix i assume i: "i < length (m_trackReaders s')"
    consider (v) "i < length (videoTracks segment)"
      | (a) "length (videoTracks segment) \<le> i"
            "i < length (videoTracks segment) + length (audioTracks segment)"
      | (t) "length (videoTracks segment) + length (audioTracks segment) \<le> i"
      by linarith
    then show "enabled (m_trackReaders s' ! i) =
        (i = 0 \<and> videoTracks segment \<noteq> [] \<or>
         i = length (videoTracks segment) \<and> audioTracks segment \<noteq> [])"
    proof cases
      case v
      then show ?thesis by (auto simp: rs nth_append enabled_firstEnabled)
    next
      case a
      then show ?thesis by (auto simp: rs nth_append enabled_firstEnabled)
    next
      case t
      with i show ?thesis
        by (cases "videoTracks segment"; cases "audioTracks segment") (auto simp: rs nth_append)
    qed
  qed
  have count: "length (filter enabled (m_trackReaders s')) =
      (if videoTracks segment = [] then 0 else 1) + (if audioTracks segment = [] then 0 else 1)"
    by (simp add: rs filter_enabled_firstEnabled comp_def)
  from ids kinds flags count show ?thesis by blast
qed

theorem first_video_and_first_audio_enabled_witness:
  "didParseTracks MainThread twoTrackSegment 0 (FormatReader_new reliableAllocator) =
     Inr ((FormatReader_new reliableAllocator)
            \<lparr>m_parseTracksStatus := Some noErr, m_duration := validTime 12,
             m_trackReaders :=
               [\<lparr>trackID = 1, mediaType = Video, enabled = True, samples = [], finished = False\<rparr>,
                \<lparr>trackID = 2, mediaType = Audio, enabled = True, samples = [], finished = False\<rparr>]\<rparr>) \<and>
   length (filter enabled (m_trackReaders ((FormatReader_new reliableAllocator)
            \<lparr>m_parseTracksStatus := Some noErr, m_duration := validTime 12,
             m_trackReaders :=
               [\<lparr>trackID = 1, mediaType = Video, enabled = True, samples = [], finished = False\<rparr>,
                \<lparr>trackID = 2, mediaType = Audio, enabled = True, samples = [], finished = False\<rparr>]\<rparr>))) = 2"
proof -
  have a: "\<forall>t \<in> set (videoTracks twoTrackSegment @ audioTracks twoTrackSegment @
      textTracks twoTrackSegment). allocator (FormatReader_new reliableAllocator) t"
    by (simp add: FormatReader_new_def reliableAllocator_def)
  have d: "didParseTracks MainThread twoTrackSegment 0 (FormatReader_new reliableAllocator) =
     Inr ((FormatReader_new reliableAllocator)
            \<lparr>m_parseTracksStatus := Some noErr, m_duration := validTime 12,
             m_trackReaders :=
               [\<lparr>trackID = 1, mediaType = Video, enabled = True, samples = [], finished = False\<rparr>,
                \<lparr>trackID = 2, mediaType = Audio, enabled = True, samples = [], finished = False\<rparr>]\<rparr>)"
    by (simp add: didParseTracks_def FormatReader_new_def twoTrackSegment_def
        TrackReader_create_def reliableAllocator_def setEnabled_def Let_def)
  from first_video_and_first_audio_enabled[OF a d] d show ?thesis
    by (simp add: twoTrackSegment_def)
qed

text \<open>
  The claim as stated fails on a segment with a video and an audio track: the audio loop
  enables the reader at index \<^verbatim>\<open>segment.videoTracks.size()\<close> (line 152) as well.
\<close>

theorem exactly_one_enabled_counterexample:
  "map_sum id (\<lambda>s. map enabled (m_trackReaders s))
     (run [ParseByteSource (Some newParser) (Some 1), DidParseTracks twoTrackSegment 0]
        (FormatReader_new reliableAllocator)) = Inr [True, True]"
  by (simp add: parseByteSource_def didParseTracks_def FormatReader_new_def twoTrackSegment_def
      TrackReader_create_def reliableAllocator_def setEnabled_def Let_def)

subsection \<open>Queries after a parse error\<close>

text \<open>
  C4, as amended. When the first callback of a generation is the error callback with a
  non-zero code, every later \<^verbatim>\<open>copyTrackArray\<close> of that generation, called off the
  main thread, returns the parsing-failure code without a track list. The Duration
  property does not depend on the status: \<^verbatim>\<open>copyProperty\<close> converts the stored
  duration, which is the duration \<open>d\<close> of the empty segment, and returns it with
  \<^verbatim>\<open>noErr\<close>; it returns value-not-available only when the conversion yields nothing.
\<close>

theorem queries_after_parse_error:
  assumes "errorCode \<noteq> 0" and "\<not> isMainThread thread"
    and "run (ParseByteSource (Some parser) byteSource #
              DidParseTracks (emptySegment d) errorCode # g) s0 = Inr s"
    and "\<forall>e \<in> set g. \<not> isParseByteSource e"
  shows "copyTrackArray thread s =
           Inr (Returned kMTPluginFormatReaderError_ParsingFailure None) \<and>
         copyProperty copyAsDictionary kMTPluginFormatReaderProperty_Duration s =
           (case copyAsDictionary d of
              Some dictionary \<Rightarrow> Returned noErr (Some dictionary)
            | None \<Rightarrow> Returned kCMBaseObjectError_ValueNotAvailable None)"
proof -
  let ?s1 = "\<lparr>allocator = allocator s0, m_byteSource = byteSource, m_duration = invalidTime,
          m_parseTracksStatus = None, m_trackReaders = []\<rparr>"
  from assms(3) have r: "run (DidParseTracks (emptySegment d) errorCode # g) ?s1 = Inr s"
    by (simp only: run_start)
  from assms(4) have n:
    "\<forall>e \<in> set (DidParseTracks (emptySegment d) errorCode # g). \<not> isParseByteSource e"
    by simp
  from run_unset[OF r n] assms(1)
  have st: "m_parseTracksStatus s = Some kMTPluginFormatReaderError_ParsingFailure"
    and du: "m_duration s = d"
    by (auto simp: statusOf_def emptySegment_def)
  from assms(2) st have "copyTrackArray thread s =
      Inr (Returned kMTPluginFormatReaderError_ParsingFailure None)"
    by (simp add: copyTrackArray_def status_distinct)
  moreover from st du
  have "copyProperty copyAsDictionary kMTPluginFormatReaderProperty_Duration s =
           (case copyAsDictionary d of
              Some dictionary \<Rightarrow> Returned noErr (Some dictionary)
            | None \<Rightarrow> Returned kCMBaseObjectError_ValueNotAvailable None)"
    by (simp add: copyProperty_def)
  ultimately show ?thesis by blast
qed

theorem queries_after_parse_error_witness:
  "copyTrackArray (OtherThread 1) (failedState (validTime 0)) =
     Inr (Returned kMTPluginFormatReaderError_ParsingFailure None) \<and>
   copyProperty Some kMTPluginFormatReaderProperty_Duration (failedState (validTime 0)) =
     Returned noErr (Some (validTime 0))"
proof -
  have e: "(5 :: 64 word) \<noteq> 0" by simp
  have t: "\<not> isMainThread (OtherThread 1)" by simp
  have n: "\<forall>e \<in> set []. \<not> isParseByteSource e" by simp
  have r: "run (ParseByteSource (Some newParser) (Some 1) #
      DidParseTracks (emptySegment (validTime 0)) 5 # []) (FormatReader_new reliableAllocator) =
      Inr (failedState (validTime 0))"
    using failedState_reached by simp
  from queries_after_parse_error[OF e t r n, of Some] show ?thesis by simp
qed

text \<open>
  The claim as stated fails: after error code 5 the duration query returns
  \<^verbatim>\<open>noErr\<close> and a value, whether the empty segment's duration is the zero time or
  the invalid time.
\<close>

theorem duration_after_parse_error_counterexample:
  "run [ParseByteSource (Some newParser) (Some 1), DidParseTracks (emptySegment (validTime 0)) 5]
     (FormatReader_new reliableAllocator) = Inr (failedState (validTime 0)) \<and>
   copyProperty Some kMTPluginFormatReaderProperty_Duration (failedState (validTime 0)) =
     Returned noErr (Some (validTime 0)) \<and>
   run [ParseByteSource (Some newParser) (Some 1), DidParseTracks (emptySegment invalidTime) 5]
     (FormatReader_new reliableAllocator) = Inr (failedState invalidTime) \<and>
   copyProperty Some kMTPluginFormatReaderProperty_Duration (failedState invalidTime) =
     Returned noErr (Some invalidTime)"
proof -
  have a: "copyProperty Some kMTPluginFormatReaderProperty_Duration (failedState (validTime 0)) =
     Returned noErr (Some (validTime 0))"
    by (simp add: copyProperty_def failedState_def)
  have b: "copyProperty Some kMTPluginFormatReaderProperty_Duration (failedState invalidTime) =
     Returned noErr (Some invalidTime)"
    by (simp add: copyProperty_def failedState_def)
  from failedState_reached[of "validTime 0"] a failedState_reached[of invalidTime] b
  show ?thesis by blast
qed

subsection \<open>Samples for unknown tracks\<close>

text \<open>
  C5. A media-sample callback (it runs on the main thread) whose track id matches no
  reader of \<^verbatim>\<open>m_trackReaders\<close> returns without error and leaves the whole reader
  as it was: the status, the duration, the track list and every reader's samples.
\<close>

theorem unmatched_sample_dropped:
  assumes "\<forall>r \<in> set (m_trackReaders s). trackID r \<noteq> trackId"
  shows "didProvideMediaData MainThread mediaSample trackId hint s = Inr s"
proof -
  from assms have "findMatching (\<lambda>track. trackID track = trackId) (m_trackReaders s) = None"
    by (simp add: findMatching_None)
  then show ?thesis by (simp add: didProvideMediaData_def)
qed

theorem unmatched_sample_dropped_witness:
  "didProvideMediaData MainThread 9 5 ''audio'' twoTrackState = Inr twoTrackState"
proof -
  have "\<forall>r \<in> set (m_trackReaders twoTrackState). trackID r \<noteq> 5"
    by (simp add: twoTrackState_def twoTrackReaders_def)
  then show ?thesis by (rule unmatched_sample_dropped)
qed

subsection \<open>Queries made before the result\<close>

text \<open>
  C6. Let two caller threads query a reader whose status is unset (state \<open>s0\<close>): both
  calls wait. Let the generation go on without a new start, let the first call look at
  the reader at a point \<open>s1\<close> where the status is set and the second at a later point
  \<open>s2\<close>. Then neither call waits any longer, and both see the same status, the same
  duration, the same answer of \<^verbatim>\<open>copyProperty\<close> and the same answer of
  \<^verbatim>\<open>copyTrackArray\<close>: the same status and the same readers in the same order
  (a reader being its id, kind and enabled flag; the array holds references, and the
  samples behind them may have grown between the two calls).
\<close>

theorem concurrent_queries_agree:
  assumes "\<not> isMainThread thread1" and "\<not> isMainThread thread2"
    and "m_parseTracksStatus s0 = None"
    and "run es1 s0 = Inr s1" and "run es2 s1 = Inr s2"
    and "\<forall>e \<in> set (es1 @ es2). \<not> isParseByteSource e"
    and "m_parseTracksStatus s1 \<noteq> None"
  shows "copyProperty copyAsDictionary key s0 = Waiting \<and>
         copyTrackArray thread1 s0 = Inr Waiting \<and>
         copyTrackArray thread2 s0 = Inr Waiting \<and>
         copyProperty copyAsDictionary key s1 \<noteq> Waiting \<and>
         copyTrackArray thread1 s1 \<noteq> Inr Waiting \<and>
         m_parseTracksStatus s2 = m_parseTracksStatus s1 \<and>
         m_duration s2 = m_duration s1 \<and>
         copyProperty copyAsDictionary key s2 = copyProperty copyAsDictionary key s1 \<and>
         map_sum id (map_QueryResult (map trackIdentity)) (copyTrackArray thread2 s2) =
           map_sum id (map_QueryResult (map trackIdentity)) (copyTrackArray thread1 s1)"
proof -
  from assms(6) have n2: "\<forall>e \<in> set es2. \<not> isParseByteSource e" by simp
  note rc = run_concluded[OF assms(5) n2 assms(7)]
  from assms(3) have w: "copyProperty copyAsDictionary key s0 = Waiting"
    "copyTrackArray thread1 s0 = Inr Waiting" "copyTrackArray thread2 s0 = Inr Waiting"
    using assms(1,2) by (simp_all add: copyProperty_def copyTrackArray_def)
  from assms(7) have r: "copyProperty copyAsDictionary key s1 \<noteq> Waiting"
    "copyTrackArray thread1 s1 \<noteq> Inr Waiting"
    using assms(1) by (auto simp: copyProperty_def copyTrackArray_def split: option.splits)
  from rc have p: "copyProperty copyAsDictionary key s2 = copyProperty copyAsDictionary key s1"
    by (simp add: copyProperty_def)
  from rc assms(1,2) have t:
    "map_sum id (map_QueryResult (map trackIdentity)) (copyTrackArray thread2 s2) =
     map_sum id (map_QueryResult (map trackIdentity)) (copyTrackArray thread1 s1)"
    by (simp add: copyTrackArray_def split: option.splits)
  from w r p t rc show ?thesis by simp
qed

theorem concurrent_queries_agree_witness:
  "copyProperty Some kMTPluginFormatReaderProperty_Duration
     \<lparr>allocator = reliableAllocator, m_byteSource = Some 1, m_duration = invalidTime,
      m_parseTracksStatus = None, m_trackReaders = []\<rparr> = Waiting \<and>
   copyProperty Some kMTPluginFormatReaderProperty_Duration twoTrackState =
     Returned noErr (Some (validTime 12)) \<and>
   map_sum id (map_QueryResult (map trackIdentity))
     (copyTrackArray (OtherThread 2)
        (twoTrackState\<lparr>m_trackReaders := map TrackReader_finishParsing twoTrackReaders\<rparr>)) =
   map_sum id (map_QueryResult (map trackIdentity)) (copyTrackArray (OtherThread 1) twoTrackState)"
proof -
  let ?s0 = "\<lparr>allocator = reliableAllocator, m_byteSource = Some 1, m_duration = invalidTime,
      m_parseTracksStatus = None, m_trackReaders = []\<rparr>"
  let ?s2 = "twoTrackState\<lparr>m_trackReaders := map TrackReader_finishParsing twoTrackReaders\<rparr>"
  have t1: "\<not> isMainThread (OtherThread 1)" and t2: "\<not> isMainThread (OtherThread 2)"
    by simp_all
  have u: "m_parseTracksStatus ?s0 = None" by simp
  have r1: "run [DidParseTracks twoTrackSegment 0, DidProvideMediaData 7 1 ''video''] ?s0 =
      Inr twoTrackState"
    by (simp add: didParseTracks_def didProvideMediaData_def
      twoTrackSegment_def twoTrackState_def twoTrackReaders_def TrackReader_create_def
      reliableAllocator_def setEnabled_def addSample_def noErr_def Let_def)
  have r2: "run [FinishParsing newParser] twoTrackState = Inr ?s2"
    by (simp add: finishParsing_def twoTrackState_def)
  have n: "\<forall>e \<in> set ([DidParseTracks twoTrackSegment 0, DidProvideMediaData 7 1 ''video''] @
      [FinishParsing newParser]). \<not> isParseByteSource e" by simp
  have c: "m_parseTracksStatus twoTrackState \<noteq> None" by (simp add: twoTrackState_def)
  from concurrent_queries_agree[OF t1 t2 u r1 r2 n c, of Some kMTPluginFormatReaderProperty_Duration]
  show ?thesis by (simp add: copyProperty_def twoTrackState_def)
qed

subsection \<open>The end of parsing\<close>

text \<open>
  C7. A \<^verbatim>\<open>finishParsing\<close> that returns leaves the status and the duration as they
  were and keeps the track list's members and order (ids, kinds, enabled flags) and every
  reader's samples; a second call, on the parser the first one released or on any other,
  returns the very state the first call produced, so no reader is duplicated or altered.
\<close>

theorem finishParsing_frame_idempotent:
  assumes "finishParsing MainThread parser s = Inr (s1, parser1)"
  shows "m_parseTracksStatus s1 = m_parseTracksStatus s \<and>
         m_duration s1 = m_duration s \<and>
         map trackIdentity (m_trackReaders s1) = map trackIdentity (m_trackReaders s) \<and>
         map samples (m_trackReaders s1) = map samples (m_trackReaders s) \<and>
         finishParsing MainThread parser1 s1 = Inr (s1, parser1) \<and>
         finishParsing MainThread parser s1 = Inr (s1, parser1)"
  using assms
  by (auto simp: finishParsing_def resetParserState_def comp_def split: if_splits)

theorem finishParsing_frame_idempotent_witness:
  "finishParsing MainThread newParser twoTrackState =
     Inr (twoTrackState\<lparr>m_trackReaders := map TrackReader_finishParsing twoTrackReaders\<rparr>, newParser) \<and>
   finishParsing MainThread newParser
       (twoTrackState\<lparr>m_trackReaders := map TrackReader_finishParsing twoTrackReaders\<rparr>) =
     Inr (twoTrackState\<lparr>m_trackReaders := map TrackReader_finishParsing twoTrackReaders\<rparr>, newParser)"
proof -
  have f: "finishParsing MainThread newParser twoTrackState =
     Inr (twoTrackState\<lparr>m_trackReaders := map TrackReader_finishParsing twoTrackReaders\<rparr>, newParser)"
    by (simp add: finishParsing_def twoTrackState_def resetParserState_def newParser_def)
  from finishParsing_frame_idempotent[OF f] f show ?thesis by simp
qed

subsection \<open>The thread that starts a parse\<close>

text \<open>
  C8, as amended. \<^verbatim>\<open>startOnMainThread\<close> is to be invoked off the main thread: there
  it touches no member and enqueues \<^verbatim>\<open>parseByteSource\<close> for the main thread, where
  that call passes its own thread assertion and returns. Invoked on the main thread it
  fails \<^verbatim>\<open>ASSERT(!isMainThread())\<close>.
\<close>

theorem startOnMainThread_off_main_only:
  assumes "\<not> isMainThread thread"
  shows "startOnMainThread thread byteSource = Inr (ParseByteSourceTask byteSource) \<and>
         (\<exists>r. performMainThreadTask created (ParseByteSourceTask byteSource) s = Inr r)"
  using assms by (cases created) (simp_all add: startOnMainThread_def parseByteSource_def Let_def)

theorem startOnMainThread_off_main_only_witness:
  "startOnMainThread (OtherThread 1) (Some 1) = Inr (ParseByteSourceTask (Some 1)) \<and>
   (\<exists>r. performMainThreadTask (Some newParser) (ParseByteSourceTask (Some 1))
      (FormatReader_new reliableAllocator) = Inr r)"
proof -
  have "\<not> isMainThread (OtherThread 1)" by simp
  from startOnMainThread_off_main_only[OF this] show ?thesis by blast
qed

text \<open>The claim as stated fails: the call on the main thread violates the assertion.\<close>

theorem startOnMainThread_on_main_counterexample:
  "startOnMainThread MainThread (Some 1) = Inl AssertionFailure"
  by (simp add: startOnMainThread_def)

subsection \<open>Properties other than the duration\<close>

text \<open>
  C9. For a key other than the Duration key, \<^verbatim>\<open>copyProperty\<close> waits while the
  status is unset and, once it is set, returns the value-not-available error without a
  value, whatever the status is.
\<close>

theorem copyProperty_other_key:
  assumes "key \<noteq> kMTPluginFormatReaderProperty_Duration"
  shows "copyProperty copyAsDictionary key s =
           (if m_parseTracksStatus s = None then Waiting
            else Returned kCMBaseObjectError_ValueNotAvailable None)"
  using assms by (simp add: copyProperty_def)

theorem copyProperty_other_key_witness:
  "copyProperty Some ''Tracks'' twoTrackState = Returned kCMBaseObjectError_ValueNotAvailable None"
proof -
  have k: "''Tracks'' \<noteq> kMTPluginFormatReaderProperty_Duration"
    by (simp add: kMTPluginFormatReaderProperty_Duration_def)
  from copyProperty_other_key[OF k, of Some twoTrackState] show ?thesis
    by (simp add: twoTrackState_def)
qed

subsection \<open>The end of parsing without a result\<close>

text \<open>
  C10. When a parse is started and the parser invokes neither the initialization nor the
  error callback (media-sample callbacks, if any, change nothing about the status), the
  \<^verbatim>\<open>finishParsing\<close> the worker schedules fails its assertion
  \<^verbatim>\<open>ASSERT(m_parseTracksStatus.hasValue())\<close> instead of returning.
\<close>

theorem finishParsing_requires_outcome:
  assumes "\<forall>e \<in> set es. isDidProvideMediaData e"
  shows "run (ParseByteSource (Some parser) byteSource # es @ [FinishParsing parser']) s =
           Inl AssertionFailure"
proof -
  obtain s1 where s1: "step (ParseByteSource (Some parser) byteSource) s = Inr s1"
    "m_parseTracksStatus s1 = None"
    by (simp add: parseByteSource_def Let_def)
  from run_samples_unset[OF assms s1(2)] obtain s2 where
    s2: "run es s1 = Inr s2" "m_parseTracksStatus s2 = None" by blast
  have "run (es @ [FinishParsing parser']) s1 = Inl AssertionFailure"
    by (simp add: run_append s2 finishParsing_def)
  with s1 show ?thesis by simp
qed

theorem finishParsing_requires_outcome_witness:
  "run [ParseByteSource (Some newParser) (Some 1), DidProvideMediaData 7 1 ''video'',
        FinishParsing newParser] (FormatReader_new reliableAllocator) = Inl AssertionFailure"
  using finishParsing_requires_outcome[of "[DidProvideMediaData 7 1 ''video'']" newParser "Some 1"
      newParser "FormatReader_new reliableAllocator"]
  by simp

end
